theory Spec2Isabelle
  imports Main "HOL-Library.Sublist"
begin

section \<open>The admission webhook validator of kargo-talk-demo\<close>

text \<open>
  The development embeds \<^verbatim>\<open>webhook_validator.go\<close> (the mock Slack client, the
  validator with its timeout race, the HTTP handler) and the plain webhook receiver
  (\<^verbatim>\<open>webhookHandler\<close>, the second \<^verbatim>\<open>package main\<close> of the repository).

  Two places of \<^verbatim>\<open>webhook_validator.go\<close> are read the way they are meant, since they do
  not type-check as written: \<^verbatim>\<open>CreateConversation(ctx, name, isPrivate bool)\<close> declares
  \<^verbatim>\<open>name\<close> as a bool although it is stored in the string field \<^verbatim>\<open>lastChannelReq\<close> and
  called with a string, so \<^verbatim>\<open>name\<close> is a string here; and the \<^verbatim>\<open>if err != nil {\<close>
  of the \<^verbatim>\<open>select\<close> in \<^verbatim>\<open>ValidateMessage\<close> has no closing brace before the second
  \<^verbatim>\<open>case\<close>, so the brace is taken to close there.
\<close>

subsection \<open>Formatting verbs of \<^verbatim>\<open>fmt.Sprintf\<close>\<close>

definition digit_char :: "nat \<Rightarrow> char" where
  "digit_char d = ''0123456789abcdef'' ! d"

text \<open>The digits of \<open>n\<close> in base \<open>b\<close>, most significant first (\<open>b\<close> is 10 or 16 below).\<close>

function fmt_base :: "nat \<Rightarrow> nat \<Rightarrow> string" where
  "fmt_base b n =
     (if b < 2 \<or> n < b then [digit_char n]
      else fmt_base b (n div b) @ [digit_char (n mod b)])"
  by pat_completeness auto
termination
  by (relation "measure (\<lambda>(b, n). n)") auto

declare fmt_base.simps [simp del]

text \<open>\<^verbatim>\<open>%d\<close> of an \<^verbatim>\<open>int64\<close>.\<close>

definition fmt_d :: "int \<Rightarrow> string" where
  "fmt_d i = (if i < 0 then CHR ''-'' # fmt_base 10 (nat (- i)) else fmt_base 10 (nat i))"

text \<open>\<^verbatim>\<open>%08x\<close> of a non-negative \<^verbatim>\<open>int\<close>: lower-case hexadecimal, padded with zeros on
  the left to a width of at least eight.\<close>

definition fmt_08x :: "nat \<Rightarrow> string" where
  "fmt_08x n = (let s = fmt_base 16 n in replicate (8 - length s) CHR ''0'' @ s)"

text \<open>The value a string of hexadecimal digits denotes; used to show that \<open>fmt_08x\<close> is
  injective.\<close>

definition digit_val :: "char \<Rightarrow> nat" where
  "digit_val c = length (takeWhile (\<lambda>d. d \<noteq> c) ''0123456789abcdef'')"

definition hex_val :: "string \<Rightarrow> nat" where
  "hex_val s = foldl (\<lambda>a c. 16 * a + digit_val c) 0 s"

subsection \<open>Errors\<close>

text \<open>A Go \<^verbatim>\<open>error\<close> value: one made by \<^verbatim>\<open>fmt.Errorf\<close> (its message), or one of the two
  errors a \<^verbatim>\<open>context.Context\<close> reports.\<close>

datatype error = Errorf string | DeadlineExceeded | Canceled

fun Error :: "error \<Rightarrow> string" where
  "Error (Errorf s) = s"
| "Error DeadlineExceeded = ''context deadline exceeded''"
| "Error Canceled = ''context canceled''"

subsection \<open>MockSlackClient\<close>

text \<open>The mutex of the client serialises its two operations, so each is one atomic step
  on the client's state. \<^verbatim>\<open>channels\<close> maps a channel identifier to its visibility flag.\<close>

record MockSlackClient =
  channels :: "string \<rightharpoonup> bool"
  conversations :: "string \<rightharpoonup> string"
  lastChannelReq :: string

definition NewMockSlackClient :: MockSlackClient where
  "NewMockSlackClient =
     \<lparr>channels = Map.empty, conversations = Map.empty, lastChannelReq = ''''\<rparr>"

text \<open>\<^verbatim>\<open>fmt.Sprintf("C%08x", len(m.channels))\<close>.\<close>

definition channelID_of :: "nat \<Rightarrow> string" where
  "channelID_of n = CHR ''C'' # fmt_08x n"

text \<open>\<^verbatim>\<open>CreateConversation\<close> returns the identifier, the error (always \<^verbatim>\<open>nil\<close>) and the
  client as it has left it. The context argument is not used by the source.\<close>

definition CreateConversation ::
  "MockSlackClient \<Rightarrow> string \<Rightarrow> bool \<Rightarrow> (string \<times> error option) \<times> MockSlackClient" where
  "CreateConversation m name isPrivate =
     (let channelID = channelID_of (card (dom (channels m)))
      in ((channelID, None),
          m\<lparr>channels := (channels m)(channelID \<mapsto> isPrivate), lastChannelReq := name\<rparr>))"

definition ChannelExists :: "MockSlackClient \<Rightarrow> string \<Rightarrow> bool" where
  "ChannelExists m channelID = (case channels m channelID of None \<Rightarrow> False | Some _ \<Rightarrow> True)"

text \<open>The states a client can be in: the only way to a \<^verbatim>\<open>MockSlackClient\<close> is
  \<^verbatim>\<open>NewMockSlackClient\<close>, and the only operation that writes to it is
  \<^verbatim>\<open>CreateConversation\<close>.\<close>

inductive reachable :: "MockSlackClient \<Rightarrow> bool" where
  reachable_new: "reachable NewMockSlackClient"
| reachable_create: "reachable m \<Longrightarrow> reachable (snd (CreateConversation m name isPrivate))"

text \<open>A run of \<^verbatim>\<open>CreateConversation\<close> calls, each a name and a visibility flag.\<close>

fun create_all :: "MockSlackClient \<Rightarrow> (string \<times> bool) list \<Rightarrow> MockSlackClient" where
  "create_all m [] = m"
| "create_all m ((name, isPrivate) # calls) =
     create_all (snd (CreateConversation m name isPrivate)) calls"

subsection \<open>MockKargoMessage\<close>

text \<open>The nested anonymous structs of the source are flattened; a field keeps the name of
  its struct as a prefix.\<close>

record Subscription =
  Stage :: string
  Events :: "string list"

record MockKargoMessage =
  APIVersion :: string
  Kind :: string
  Metadata_Name :: string
  Metadata_Namespace :: string
  Metadata_Labels :: "string \<rightharpoonup> string"
  Spec_SlackChannel :: string
  Spec_Message :: string
  Spec_Team :: string
  Spec_ChannelType :: string
  Spec_Subscriptions :: "Subscription list"
  Status_CreatedAt :: int
  Status_State :: string

subsection \<open>The domain check\<close>

record Validator =
  slackClient :: MockSlackClient
  timeout :: int

definition Millisecond :: int where
  "Millisecond = 1000000"

definition Second :: int where
  "Second = 1000 * Millisecond"

definition NewValidator :: "MockSlackClient \<Rightarrow> Validator" where
  "NewValidator c = \<lparr>slackClient = c, timeout = 30 * Second\<rparr>"

text \<open>The loop over the subscriptions: the error of the first entry that has one.\<close>

fun check_subscriptions :: "Subscription list \<Rightarrow> error option" where
  "check_subscriptions [] = None"
| "check_subscriptions (sub # subs) =
     (if Stage sub = '''' then Some (Errorf ''subscription stage cannot be empty'')
      else if length (Events sub) = 0
        then Some (Errorf ''subscription must have at least one event'')
      else check_subscriptions subs)"

text \<open>\<^verbatim>\<open>validateSlackChannelCreation\<close> returns its error, the nanoseconds it has spent in
  \<^verbatim>\<open>time.Sleep\<close>, and the validator with the client as the check has left it.\<close>

definition validateSlackChannelCreation ::
  "Validator \<Rightarrow> MockKargoMessage \<Rightarrow> (error option \<times> int) \<times> Validator" where
  "validateSlackChannelCreation v msg =
     (if Spec_SlackChannel msg = '''' then ((Some (Errorf ''slackChannel is required''), 0), v)
      else if Metadata_Namespace msg = '''' then ((Some (Errorf ''namespace is required''), 0), v)
      else
        let ((channelID, err), c) =
              CreateConversation (slackClient v) (Spec_SlackChannel msg)
                (Spec_ChannelType msg = ''private'');
            v' = v\<lparr>slackClient := c\<rparr>
        in case err of
             Some e \<Rightarrow> ((Some (Errorf (''failed to create Slack channel: '' @ Error e)), 0), v')
           | None \<Rightarrow>
               if \<not> ChannelExists c channelID
               then ((Some (Errorf (''Slack channel '' @ channelID @ '' not found after creation'')),
                      0), v')
               else ((check_subscriptions (Spec_Subscriptions msg), 100 * Millisecond), v'))"

subsection \<open>Contexts and the race of the \<^verbatim>\<open>select\<close>\<close>

text \<open>
  Time is counted in nanoseconds from the entry into \<^verbatim>\<open>ValidateMessage\<close>. A context
  is \<open>Background\<close>, which never ends, or \<open>Ends t e\<close>: its \<^verbatim>\<open>Done\<close> channel is closed at
  time \<open>t\<close> (already at the entry when \<open>t \<le> 0\<close>) and \<^verbatim>\<open>Err()\<close> is \<open>e\<close> from then on.
\<close>

datatype Context = Background | Ends int error

text \<open>\<^verbatim>\<open>context.WithTimeout(parent, d)\<close>: the child ends with its parent, or when the
  budget \<open>d\<close> has run out, whichever is first (the parent, when both fall on the same
  instant).\<close>

fun WithTimeout :: "Context \<Rightarrow> int \<Rightarrow> Context" where
  "WithTimeout Background d = Ends d DeadlineExceeded"
| "WithTimeout (Ends t e) d = (if t \<le> d then Ends t e else Ends d DeadlineExceeded)"

fun Err :: "Context \<Rightarrow> error option" where
  "Err Background = None"
| "Err (Ends t e) = Some e"

text \<open>
  What the inputs of \<^verbatim>\<open>ValidateMessage\<close> do not determine: the reading of the clock
  (\<^verbatim>\<open>time.Now().UnixNano()\<close>), the time the goroutine of the check needs beyond its
  \<^verbatim>\<open>time.Sleep\<close> until its result is in the channel \<^verbatim>\<open>done\<close>, and the case the
  \<^verbatim>\<open>select\<close> takes when both channels become ready at the same instant.
\<close>

record Schedule =
  now :: int
  latency :: nat
  tie :: bool

datatype select_case = CaseDone | CaseCtxDone

text \<open>The \<^verbatim>\<open>select\<close> takes the case whose channel is ready first: \<^verbatim>\<open>done\<close> is ready at
  \<open>finish\<close>, \<^verbatim>\<open>asyncCtx.Done()\<close> when the context ends.\<close>

fun select :: "Context \<Rightarrow> int \<Rightarrow> bool \<Rightarrow> select_case" where
  "select Background finish t = CaseDone"
| "select (Ends d e) finish t =
     (if finish < d \<or> (finish = d \<and> t) then CaseDone else CaseCtxDone)"

text \<open>The context does not end before or at time \<open>t\<close>.\<close>

fun ends_after :: "Context \<Rightarrow> int \<Rightarrow> bool" where
  "ends_after Background t = True"
| "ends_after (Ends d e) t = (t < d)"

subsection \<open>ValidateMessage\<close>

record WebhookResponse =
  resp_APIVersion :: string
  resp_Kind :: string
  Response_UID :: string
  Response_Allowed :: bool
  Response_Patch :: string
  Response_PatchType :: string
  Response_Result :: "(string \<rightharpoonup> string) option"

text \<open>
  The goroutine of the check is never stopped (the timeout only ends the wait for it), so
  the validator returned is the one the check leaves behind, also when the response is
  the one of the timeout.
\<close>

definition ValidateMessage ::
  "Validator \<Rightarrow> Context \<Rightarrow> Schedule \<Rightarrow> MockKargoMessage
     \<Rightarrow> (WebhookResponse \<times> error option) \<times> Validator" where
  "ValidateMessage v ctx sch msg =
     (let resp = \<lparr>resp_APIVersion = ''admission.k8s.io/v1'', resp_Kind = ''AdmissionReview'',
                  Response_UID = ''test-uid-'' @ fmt_d (now sch), Response_Allowed = True,
                  Response_Patch = '''', Response_PatchType = '''', Response_Result = None\<rparr>;
          asyncCtx = WithTimeout ctx (timeout v);
          ((err, slept), v') = validateSlackChannelCreation v msg
      in case select asyncCtx (int (latency sch) + slept) (tie sch) of
           CaseDone \<Rightarrow>
             (case err of
                Some e \<Rightarrow>
                  ((resp\<lparr>Response_Allowed := False,
                          Response_Result :=
                            Some [''status'' \<mapsto> ''Failure'',
                                  ''reason'' \<mapsto> ''Slack channel validation failed: '' @ Error e]\<rparr>,
                    Some e), v')
              | None \<Rightarrow> ((resp, None), v'))
         | CaseCtxDone \<Rightarrow>
             ((resp\<lparr>Response_Allowed := False,
                     Response_Result :=
                       Some [''status'' \<mapsto> ''Failure'',
                             ''reason'' \<mapsto> ''Slack channel validation timeout'']\<rparr>,
               Err asyncCtx), v'))"

text \<open>The time at which the result of the check is in \<^verbatim>\<open>done\<close>.\<close>

definition check_finish :: "Validator \<Rightarrow> Schedule \<Rightarrow> MockKargoMessage \<Rightarrow> int" where
  "check_finish v sch msg = int (latency sch) + snd (fst (validateSlackChannelCreation v msg))"

text \<open>\<^verbatim>\<open>strings.Contains\<close>, as \<^verbatim>\<open>assert.Contains\<close> uses it on the reason.\<close>

definition Contains :: "string \<Rightarrow> string \<Rightarrow> bool" where
  "Contains s substr = sublist substr s"

definition reason_of :: "WebhookResponse \<Rightarrow> string option" where
  "reason_of resp = (case Response_Result resp of None \<Rightarrow> None | Some r \<Rightarrow> r ''reason'')"

subsection \<open>HTTP\<close>

text \<open>A value of type \<^verbatim>\<open>any\<close> as \<^verbatim>\<open>encoding/json\<close> decodes one; a \<^verbatim>\<open>float64\<close> is a
  mantissa and a binary exponent.\<close>

datatype any =
    AnyNil
  | AnyBool bool
  | AnyFloat64 int int
  | AnyString string
  | AnySlice "any list"
  | AnyMap "string \<rightharpoonup> any"

record WebhookRequest =
  req_APIVersion :: string
  req_Kind :: string
  Request_UID :: string
  Request_DryRun :: bool
  Request_UserInfo :: any
  Request_Object :: any
  Request_OldObject :: any
  Resource_Group :: string
  Resource_Version :: string
  Resource_Resource :: string
  Request_SubResource :: string

text \<open>
  \<^verbatim>\<open>encoding/json\<close> is not code of the repository; the handler takes it as a parameter:
  \<open>Unmarshal\<close> is \<^verbatim>\<open>json.Unmarshal(body, &req)\<close> (\<open>None\<close> when it returns an error) and
  \<open>Remarshal\<close> is the \<^verbatim>\<open>json.Marshal\<close> of the object followed by the
  \<^verbatim>\<open>json.Unmarshal\<close> into the message, whose errors the handler ignores.
\<close>

record Json =
  Unmarshal :: "string \<Rightarrow> WebhookRequest option"
  Remarshal :: "(string \<rightharpoonup> any) \<Rightarrow> MockKargoMessage"

text \<open>A request: \<open>Body\<close> is what \<^verbatim>\<open>io.ReadAll(r.Body)\<close> returns (\<open>None\<close> for an error),
  \<open>Header\<close> has canonical keys.\<close>

record Request =
  Method :: string
  Header :: "string \<rightharpoonup> string list"
  Body :: "string option"
  Request_Context :: Context

datatype payload =
    Text string
  | Encoded_Response WebhookResponse
  | Encoded_Map "string \<rightharpoonup> string"

text \<open>What the handler has written to the \<^verbatim>\<open>http.ResponseWriter\<close>: the status, the
  \<^verbatim>\<open>Content-Type\<close> it has set, the body.\<close>

record Response =
  StatusCode :: nat
  ContentType :: "string option"
  Payload :: payload

definition StatusOK :: nat where
  "StatusOK = 200"

definition StatusBadRequest :: nat where
  "StatusBadRequest = 400"

definition StatusUnauthorized :: nat where
  "StatusUnauthorized = 401"

definition StatusForbidden :: nat where
  "StatusForbidden = 403"

definition StatusMethodNotAllowed :: nat where
  "StatusMethodNotAllowed = 405"

definition StatusInternalServerError :: nat where
  "StatusInternalServerError = 500"

text \<open>\<^verbatim>\<open>http.Error\<close>.\<close>

definition http_Error :: "string \<Rightarrow> nat \<Rightarrow> Response" where
  "http_Error msg code =
     \<lparr>StatusCode = code, ContentType = Some ''text/plain; charset=utf-8'',
      Payload = Text (msg @ [CHR 0x0A])\<rparr>"

text \<open>\<^verbatim>\<open>Header.Get\<close>: the first value of the key, the empty string when there is none.\<close>

definition Header_Get :: "(string \<rightharpoonup> string list) \<Rightarrow> string \<Rightarrow> string" where
  "Header_Get h key = (case h key of None \<Rightarrow> '''' | Some [] \<Rightarrow> '''' | Some (x # _) \<Rightarrow> x)"

definition is_client_error :: "nat \<Rightarrow> bool" where
  "is_client_error code = (400 \<le> code \<and> code < 500)"

definition is_server_error :: "nat \<Rightarrow> bool" where
  "is_server_error code = (500 \<le> code \<and> code < 600)"

definition is_success :: "nat \<Rightarrow> bool" where
  "is_success code = (200 \<le> code \<and> code < 300)"

subsection \<open>WebhookHandler\<close>

definition WebhookHandler ::
  "Json \<Rightarrow> Validator \<Rightarrow> Schedule \<Rightarrow> Request \<Rightarrow> Response \<times> Validator" where
  "WebhookHandler json v sch r =
     (case Body r of
        None \<Rightarrow> (http_Error ''Failed to read request body'' StatusBadRequest, v)
      | Some body \<Rightarrow>
          (case Unmarshal json body of
             None \<Rightarrow> (http_Error ''Failed to parse JSON'' StatusBadRequest, v)
           | Some req \<Rightarrow>
               (case Request_Object req of
                  AnyMap obj \<Rightarrow>
                    let msg = Remarshal json obj;
                        ((resp, err), v') = ValidateMessage v (Request_Context r) sch msg
                    in (case err of
                          Some e \<Rightarrow>
                            (\<lparr>StatusCode = StatusInternalServerError, ContentType = None,
                              Payload = Encoded_Response resp\<rparr>, v')
                        | None \<Rightarrow>
                            (\<lparr>StatusCode = StatusOK, ContentType = Some ''application/json'',
                              Payload = Encoded_Response resp\<rparr>, v'))
                | _ \<Rightarrow> (http_Error ''Invalid object format'' StatusBadRequest, v))))"

subsection \<open>The plain webhook receiver\<close>

definition secretHeader :: string where
  "secretHeader = ''X-Webhook-Secret''"

definition expectedSecret :: string where
  "expectedSecret = ''my-super-secret-123''"

text \<open>The log lines of the receiver are left out; they do not reach the response.\<close>

definition webhookHandler :: "Request \<Rightarrow> Response" where
  "webhookHandler r =
     (if Method r \<noteq> ''POST'' then http_Error ''Method not allowed'' StatusMethodNotAllowed
      else
        let secret = Header_Get (Header r) secretHeader
        in if secret \<noteq> '''' then
             (if secret \<noteq> expectedSecret then http_Error ''Forbidden'' StatusForbidden
              else
                (case Body r of
                   None \<Rightarrow> http_Error ''Bad request'' StatusBadRequest
                 | Some body \<Rightarrow>
                     \<lparr>StatusCode = StatusOK, ContentType = Some ''application/json'',
                      Payload = Encoded_Map [''message'' \<mapsto> ''Webhook received successfully'']\<rparr>))
           else http_Error ''Missing secret header'' StatusUnauthorized)"

subsection \<open>The inputs of the tests\<close>

text \<open>The message of \<^verbatim>\<open>TestWebhookValidator_Success\<close>.\<close>

definition success_msg :: MockKargoMessage where
  "success_msg =
     \<lparr>APIVersion = ''kargo.akuity.io/v1alpha1'', Kind = ''SlackMessage'',
      Metadata_Name = ''test-slack-msg'', Metadata_Namespace = ''kargo'',
      Metadata_Labels = [''app'' \<mapsto> ''kargo''],
      Spec_SlackChannel = ''kargo-notifications'',
      Spec_Message = ''Pipeline {{.Stage.Name}} completed successfully'',
      Spec_Team = '''', Spec_ChannelType = ''public'',
      Spec_Subscriptions =
        [\<lparr>Stage = ''production'', Events = [''PromoteSucceeded'']\<rparr>,
         \<lparr>Stage = ''staging'', Events = [''PromoteFailed'']\<rparr>],
      Status_CreatedAt = 0, Status_State = ''''\<rparr>"

text \<open>The message of \<^verbatim>\<open>TestWebhookValidator_MissingChannel\<close>.\<close>

definition missing_channel_msg :: MockKargoMessage where
  "missing_channel_msg =
     \<lparr>APIVersion = ''kargo.akuity.io/v1alpha1'', Kind = ''SlackMessage'',
      Metadata_Name = ''invalid-msg'', Metadata_Namespace = ''kargo'',
      Metadata_Labels = Map.empty,
      Spec_SlackChannel = '''', Spec_Message = ''Test message'',
      Spec_Team = '''', Spec_ChannelType = '''', Spec_Subscriptions = [],
      Status_CreatedAt = 0, Status_State = ''''\<rparr>"

text \<open>The message and the validator of \<^verbatim>\<open>TestTimeoutValidation\<close>.\<close>

definition timeout_msg :: MockKargoMessage where
  "timeout_msg =
     \<lparr>APIVersion = ''kargo.akuity.io/v1alpha1'', Kind = ''SlackMessage'',
      Metadata_Name = ''timeout-test'', Metadata_Namespace = ''kargo'',
      Metadata_Labels = Map.empty,
      Spec_SlackChannel = ''timeout-channel'', Spec_Message = ''This should timeout'',
      Spec_Team = '''', Spec_ChannelType = '''', Spec_Subscriptions = [],
      Status_CreatedAt = 0, Status_State = ''''\<rparr>"

definition timeout_validator :: Validator where
  "timeout_validator = \<lparr>slackClient = NewMockSlackClient, timeout = 10 * Millisecond\<rparr>"

text \<open>A message whose second subscription has no stage and whose third has no event.\<close>

definition bad_subscription_msg :: MockKargoMessage where
  "bad_subscription_msg =
     success_msg\<lparr>Spec_Subscriptions :=
       [\<lparr>Stage = ''production'', Events = [''PromoteSucceeded'']\<rparr>,
        \<lparr>Stage = '''', Events = [''PromoteFailed'']\<rparr>,
        \<lparr>Stage = ''staging'', Events = []\<rparr>]\<rparr>"

text \<open>The request of \<^verbatim>\<open>TestWebhookValidator_HTTPHandler\<close>, as decoded from its body; the
  object is the map the message is decoded from.\<close>

definition http_test_object :: "string \<rightharpoonup> any" where
  "http_test_object =
     [''apiVersion'' \<mapsto> AnyString ''kargo.akuity.io/v1alpha1'',
      ''kind'' \<mapsto> AnyString ''SlackMessage'',
      ''metadata'' \<mapsto> AnyMap [''name'' \<mapsto> AnyString ''http-test'',
                               ''namespace'' \<mapsto> AnyString ''default''],
      ''spec'' \<mapsto> AnyMap [''slackChannel'' \<mapsto> AnyString ''devops-notifications'',
                           ''message'' \<mapsto> AnyString ''Deployment {{.Pipeline.Name}} succeeded'']]"

definition http_test_msg :: MockKargoMessage where
  "http_test_msg =
     \<lparr>APIVersion = ''kargo.akuity.io/v1alpha1'', Kind = ''SlackMessage'',
      Metadata_Name = ''http-test'', Metadata_Namespace = ''default'',
      Metadata_Labels = Map.empty,
      Spec_SlackChannel = ''devops-notifications'',
      Spec_Message = ''Deployment {{.Pipeline.Name}} succeeded'',
      Spec_Team = '''', Spec_ChannelType = '''', Spec_Subscriptions = [],
      Status_CreatedAt = 0, Status_State = ''''\<rparr>"

definition http_test_request :: "any \<Rightarrow> WebhookRequest" where
  "http_test_request obj =
     \<lparr>req_APIVersion = ''admission.k8s.io/v1'', req_Kind = ''AdmissionReview'',
      Request_UID = ''test-http-uid'', Request_DryRun = False,
      Request_UserInfo = AnyNil, Request_Object = obj, Request_OldObject = AnyNil,
      Resource_Group = ''kargo.akuity.io'', Resource_Version = ''v1alpha1'',
      Resource_Resource = ''slackmessages'', Request_SubResource = ''''\<rparr>"

text \<open>A decoder that knows the one body of the test, called \<open>body\<close> here, decodes it to
  the request with the given object, and decodes every object to the message of the test.\<close>

definition http_test_json :: "any \<Rightarrow> Json" where
  "http_test_json obj =
     \<lparr>Unmarshal = (\<lambda>body. if body = ''body'' then Some (http_test_request obj) else None),
      Remarshal = (\<lambda>m. http_test_msg)\<rparr>"

definition post_request :: "string option \<Rightarrow> (string \<rightharpoonup> string list) \<Rightarrow> Request" where
  "post_request body header =
     \<lparr>Method = ''POST'', Header = header, Body = body, Request_Context = Background\<rparr>"

text \<open>A schedule: the clock reads 1700000000000000000, the check needs a microsecond beyond
  its sleep.\<close>

definition test_schedule :: Schedule where
  "test_schedule = \<lparr>now = 1700000000000000000, latency = 1000, tie = True\<rparr>"

section \<open>Properties\<close>

subsection \<open>The channel identifiers are distinct\<close>

lemma digit_val_digit_char: "d < 16 \<Longrightarrow> digit_val (digit_char d) = d"
proof -
  assume "d < 16"
  then have "d = 0 \<or> d = 1 \<or> d = 2 \<or> d = 3 \<or> d = 4 \<or> d = 5 \<or> d = 6 \<or> d = 7 \<or> d = 8
      \<or> d = 9 \<or> d = 10 \<or> d = 11 \<or> d = 12 \<or> d = 13 \<or> d = 14 \<or> d = 15"
    by arith
  then show ?thesis
    by (elim disjE) (simp_all add: digit_val_def digit_char_def)
qed

lemma hex_val_snoc: "hex_val (s @ [c]) = 16 * hex_val s + digit_val c"
  by (simp add: hex_val_def)

lemma hex_val_fmt_base: "hex_val (fmt_base 16 n) = n"
proof (induction n rule: less_induct)
  case (less n)
  show ?case
  proof (cases "n < 16")
    case True
    then show ?thesis
      by (subst fmt_base.simps) (simp add: hex_val_def digit_val_digit_char)
  next
    case False
    then have "fmt_base 16 n = fmt_base 16 (n div 16) @ [digit_char (n mod 16)]"
      by (subst fmt_base.simps) simp
    moreover have "hex_val (fmt_base 16 (n div 16)) = n div 16"
      using less False by simp
    ultimately show ?thesis
      by (simp add: hex_val_snoc digit_val_digit_char)
  qed
qed

lemma hex_val_zeros: "hex_val (replicate k CHR ''0'' @ s) = hex_val s"
proof (induction k)
  case 0
  then show ?case by simp
next
  case (Suc k)
  have "foldl (\<lambda>a c. 16 * a + digit_val c) 0 (CHR ''0'' # t)
      = foldl (\<lambda>a c. 16 * a + digit_val c) 0 t" for t
    by (simp add: digit_val_def)
  then show ?case using Suc by (simp add: hex_val_def)
qed

lemma hex_val_fmt_08x: "hex_val (fmt_08x n) = n"
  by (simp add: fmt_08x_def Let_def hex_val_zeros hex_val_fmt_base)

lemma channelID_of_inj: "channelID_of a = channelID_of b \<Longrightarrow> a = b"
  by (metis channelID_of_def hex_val_fmt_08x list.inject)

lemma inj_channelID_of: "inj_on channelID_of A"
  by (rule inj_onI) (rule channelID_of_inj)

subsection \<open>The registry\<close>

lemma channels_CreateConversation:
  "channels (snd (CreateConversation m name p))
     = (channels m)(channelID_of (card (dom (channels m))) \<mapsto> p)"
  by (simp add: CreateConversation_def Let_def)

lemma fst_CreateConversation:
  "fst (CreateConversation m name p) = (channelID_of (card (dom (channels m))), None)"
  by (simp add: CreateConversation_def Let_def)


lemma reachable_dom: "reachable m \<Longrightarrow> \<exists>n. dom (channels m) = channelID_of ` {..<n}"
proof (induction rule: reachable.induct)
  case reachable_new
  have "dom (channels NewMockSlackClient) = channelID_of ` {..<0}"
    by (simp add: NewMockSlackClient_def)
  then show ?case by blast
next
  case (reachable_create m name isPrivate)
  then obtain n where n: "dom (channels m) = channelID_of ` {..<n}" by blast
  then have "card (dom (channels m)) = n"
    by (simp add: card_image inj_channelID_of)
  then have "dom (channels (snd (CreateConversation m name isPrivate)))
      = insert (channelID_of n) (channelID_of ` {..<n})"
    using n by (simp add: channels_CreateConversation)
  also have "\<dots> = channelID_of ` {..<Suc n}"
    by (simp add: lessThan_Suc)
  finally show ?case by blast
qed

lemma reachable_fresh:
  assumes "reachable m"
  shows "channelID_of (card (dom (channels m))) \<notin> dom (channels m)"
proof -
  from assms obtain n where n: "dom (channels m) = channelID_of ` {..<n}"
    using reachable_dom by blast
  then have c: "card (dom (channels m)) = n"
    by (simp add: card_image inj_channelID_of)
  have "channelID_of n \<notin> channelID_of ` {..<n}"
    using channelID_of_inj by fastforce
  then show ?thesis using n c by simp
qed


lemma reachable_create_all: "reachable m \<Longrightarrow> reachable (create_all m calls)"
  by (induction m calls rule: create_all.induct) (auto intro: reachable_create)

lemma create_all_keeps:
  "channels m c \<noteq> None \<Longrightarrow> channels (create_all m calls) c \<noteq> None"
  by (induction m calls rule: create_all.induct) (auto simp: channels_CreateConversation)

lemma create_all_same:
  "reachable m \<Longrightarrow> channels m c = Some p \<Longrightarrow> channels (create_all m calls) c = Some p"
proof (induction m calls rule: create_all.induct)
  case (1 m)
  then show ?case by simp
next
  case (2 m name isPrivate calls)
  have "c \<noteq> channelID_of (card (dom (channels m)))"
    using reachable_fresh [OF "2.prems"(1)] "2.prems"(2) by auto
  then have "channels (snd (CreateConversation m name isPrivate)) c = Some p"
    using "2.prems"(2) by (simp add: channels_CreateConversation)
  then show ?case
    using "2.IH" "2.prems"(1) by (simp add: reachable_create)
qed

subsection \<open>C8: a created channel exists from then on\<close>

text \<open>
  Claim C8. Every identifier that \<^verbatim>\<open>CreateConversation\<close> returns (it returns no error)
  is known to \<^verbatim>\<open>ChannelExists\<close> in the state the call leaves and in every state later
  calls of \<^verbatim>\<open>CreateConversation\<close> lead to: the answer never goes back to false. On a
  client made by \<^verbatim>\<open>NewMockSlackClient\<close> the record of the channel is not written again
  either: its visibility flag stays the one it was created with.
\<close>

theorem created_channel_exists_forever:
  assumes "CreateConversation m name isPrivate = ((channelID, err), m')"
  shows "err = None \<and> ChannelExists (create_all m' calls) channelID
     \<and> (reachable m \<longrightarrow> channels (create_all m' calls) channelID = Some isPrivate)"
proof -
  have id: "channelID = channelID_of (card (dom (channels m)))" and e: "err = None"
    using assms fst_CreateConversation [of m name isPrivate] by auto
  have m': "m' = snd (CreateConversation m name isPrivate)"
    using assms by simp
  have now: "channels m' channelID = Some isPrivate"
    by (simp add: m' id channels_CreateConversation)
  then have "channels (create_all m' calls) channelID \<noteq> None"
    by (intro create_all_keeps) simp
  then have ex: "ChannelExists (create_all m' calls) channelID"
    by (auto simp: ChannelExists_def)
  have "channels (create_all m' calls) channelID = Some isPrivate" if "reachable m"
    using create_all_same [OF _ now] that m' reachable_create by blast
  with e ex show ?thesis by blast
qed

theorem created_channel_exists_forever_witness:
  "ChannelExists
     (create_all (snd (CreateConversation NewMockSlackClient ''kargo-notifications'' False))
        [(''devops-notifications'', True), (''team-channel-1'', False)])
     ''C00000000''
   \<and> channels
     (create_all (snd (CreateConversation NewMockSlackClient ''kargo-notifications'' False))
        [(''devops-notifications'', True), (''team-channel-1'', False)])
     ''C00000000'' = Some False"
proof -
  have "CreateConversation NewMockSlackClient ''kargo-notifications'' False
      = ((''C00000000'', None), snd (CreateConversation NewMockSlackClient ''kargo-notifications'' False))"
  proof -
    have "channelID_of 0 = ''C00000000''" by code_simp
    then show ?thesis
      by (simp add: CreateConversation_def NewMockSlackClient_def Let_def)
  qed
  from created_channel_exists_forever [OF this] reachable_new show ?thesis by blast
qed

subsection \<open>The check\<close>

lemma validate_no_channel:
  "Spec_SlackChannel msg = '''' \<Longrightarrow>
     validateSlackChannelCreation v msg = ((Some (Errorf ''slackChannel is required''), 0), v)"
  by (simp add: validateSlackChannelCreation_def)

lemma validate_no_namespace:
  "Spec_SlackChannel msg \<noteq> '''' \<Longrightarrow> Metadata_Namespace msg = '''' \<Longrightarrow>
     validateSlackChannelCreation v msg = ((Some (Errorf ''namespace is required''), 0), v)"
  by (simp add: validateSlackChannelCreation_def)

lemma validate_created:
  "Spec_SlackChannel msg \<noteq> '''' \<Longrightarrow> Metadata_Namespace msg \<noteq> '''' \<Longrightarrow>
     validateSlackChannelCreation v msg =
       ((check_subscriptions (Spec_Subscriptions msg), 100 * Millisecond),
        v\<lparr>slackClient :=
            snd (CreateConversation (slackClient v) (Spec_SlackChannel msg)
                  (Spec_ChannelType msg = ''private''))\<rparr>)"
  by (simp add: validateSlackChannelCreation_def CreateConversation_def ChannelExists_def Let_def)

lemma check_subscriptions_first:
  "\<forall>s \<in> set pre. Stage s \<noteq> '''' \<and> Events s \<noteq> [] \<Longrightarrow>
     check_subscriptions (pre @ sub # post) =
       (if Stage sub = '''' then Some (Errorf ''subscription stage cannot be empty'')
        else if Events sub = [] then Some (Errorf ''subscription must have at least one event'')
        else check_subscriptions post)"
  by (induction pre) auto

lemma check_subscriptions_None:
  "check_subscriptions subs = None \<longleftrightarrow> (\<forall>s \<in> set subs. Stage s \<noteq> '''' \<and> Events s \<noteq> [])"
  by (induction subs) auto

subsection \<open>C5: the rules of the check, in their order\<close>

text \<open>
  Claim C5. \<^verbatim>\<open>validateSlackChannelCreation\<close> applies its rules in a fixed order and stops
  at the first that fails. An empty channel gives \<open>slackChannel is required\<close> and an
  empty namespace (the channel being there) gives \<open>namespace is required\<close>; in both cases
  the validator is returned as it was, so the client has not been called. Otherwise the
  client has created the conversation (the create-and-verify pair never fails), and then
  the subscriptions are read in list order: the first entry with an empty stage or no
  event gives the error, its stage before its events, whatever the entries after it are;
  when no entry is malformed there is no error.
\<close>
theorem check_rules_in_order:
  "(Spec_SlackChannel msg = '''' \<longrightarrow>
      validateSlackChannelCreation v msg = ((Some (Errorf ''slackChannel is required''), 0), v))
   \<and> (Spec_SlackChannel msg \<noteq> '''' \<and> Metadata_Namespace msg = '''' \<longrightarrow>
      validateSlackChannelCreation v msg = ((Some (Errorf ''namespace is required''), 0), v))
   \<and> (Spec_SlackChannel msg \<noteq> '''' \<and> Metadata_Namespace msg \<noteq> '''' \<longrightarrow>
      slackClient (snd (validateSlackChannelCreation v msg)) =
        snd (CreateConversation (slackClient v) (Spec_SlackChannel msg)
              (Spec_ChannelType msg = ''private''))
      \<and> (\<forall>pre sub post.
            Spec_Subscriptions msg = pre @ sub # post
            \<and> (\<forall>s \<in> set pre. Stage s \<noteq> '''' \<and> Events s \<noteq> [])
            \<and> (Stage sub = '''' \<or> Events sub = []) \<longrightarrow>
            fst (fst (validateSlackChannelCreation v msg)) =
              Some (if Stage sub = '''' then Errorf ''subscription stage cannot be empty''
                    else Errorf ''subscription must have at least one event''))
      \<and> ((\<forall>s \<in> set (Spec_Subscriptions msg). Stage s \<noteq> '''' \<and> Events s \<noteq> []) \<longrightarrow>
            fst (fst (validateSlackChannelCreation v msg)) = None))"
proof (intro conjI impI allI)
  assume "Spec_SlackChannel msg = ''''"
  then show "validateSlackChannelCreation v msg = ((Some (Errorf ''slackChannel is required''), 0), v)"
    by (rule validate_no_channel)
next
  assume "Spec_SlackChannel msg \<noteq> '''' \<and> Metadata_Namespace msg = ''''"
  then show "validateSlackChannelCreation v msg = ((Some (Errorf ''namespace is required''), 0), v)"
    by (simp add: validate_no_namespace)
next
  assume "Spec_SlackChannel msg \<noteq> '''' \<and> Metadata_Namespace msg \<noteq> ''''"
  then show "slackClient (snd (validateSlackChannelCreation v msg)) =
        snd (CreateConversation (slackClient v) (Spec_SlackChannel msg)
              (Spec_ChannelType msg = ''private''))"
    by (simp add: validate_created)
next
  fix pre sub post
  assume ok: "Spec_SlackChannel msg \<noteq> '''' \<and> Metadata_Namespace msg \<noteq> ''''"
    and bad: "Spec_Subscriptions msg = pre @ sub # post
            \<and> (\<forall>s \<in> set pre. Stage s \<noteq> '''' \<and> Events s \<noteq> [])
            \<and> (Stage sub = '''' \<or> Events sub = [])"
  have "fst (fst (validateSlackChannelCreation v msg)) = check_subscriptions (pre @ sub # post)"
    using ok bad by (simp add: validate_created)
  also have "\<dots> = Some (if Stage sub = '''' then Errorf ''subscription stage cannot be empty''
                    else Errorf ''subscription must have at least one event'')"
    using bad by (auto simp: check_subscriptions_first)
  finally show "fst (fst (validateSlackChannelCreation v msg)) =
              Some (if Stage sub = '''' then Errorf ''subscription stage cannot be empty''
                    else Errorf ''subscription must have at least one event'')" .
next
  assume ok: "Spec_SlackChannel msg \<noteq> '''' \<and> Metadata_Namespace msg \<noteq> ''''"
    and good: "\<forall>s \<in> set (Spec_Subscriptions msg). Stage s \<noteq> '''' \<and> Events s \<noteq> []"
  then show "fst (fst (validateSlackChannelCreation v msg)) = None"
    by (simp add: validate_created check_subscriptions_None)
qed

lemma channelID_of_0: "channelID_of 0 = ''C00000000''"
  by code_simp

theorem check_rules_in_order_witness:
  "validateSlackChannelCreation (NewValidator NewMockSlackClient) missing_channel_msg
     = ((Some (Errorf ''slackChannel is required''), 0), NewValidator NewMockSlackClient)
   \<and> validateSlackChannelCreation (NewValidator NewMockSlackClient)
       (success_msg\<lparr>Metadata_Namespace := ''''\<rparr>)
     = ((Some (Errorf ''namespace is required''), 0), NewValidator NewMockSlackClient)
   \<and> channels (slackClient (snd (validateSlackChannelCreation
        (NewValidator NewMockSlackClient) bad_subscription_msg))) = [''C00000000'' \<mapsto> False]
   \<and> fst (fst (validateSlackChannelCreation (NewValidator NewMockSlackClient)
        bad_subscription_msg)) = Some (Errorf ''subscription stage cannot be empty'')
   \<and> fst (fst (validateSlackChannelCreation (NewValidator NewMockSlackClient) success_msg)) = None"
proof -
  let ?v = "NewValidator NewMockSlackClient"
  have a: "validateSlackChannelCreation ?v missing_channel_msg
     = ((Some (Errorf ''slackChannel is required''), 0), ?v)"
    using check_rules_in_order [of missing_channel_msg ?v]
    by (simp add: missing_channel_msg_def)
  have b: "validateSlackChannelCreation ?v (success_msg\<lparr>Metadata_Namespace := ''''\<rparr>)
     = ((Some (Errorf ''namespace is required''), 0), ?v)"
    using check_rules_in_order [of "success_msg\<lparr>Metadata_Namespace := ''''\<rparr>" ?v]
    by (simp add: success_msg_def)
  have pre: "Spec_SlackChannel bad_subscription_msg \<noteq> '''' \<and> Metadata_Namespace bad_subscription_msg \<noteq> ''''"
    by (simp add: bad_subscription_msg_def success_msg_def)
  have c: "channels (slackClient (snd (validateSlackChannelCreation ?v bad_subscription_msg)))
      = [''C00000000'' \<mapsto> False]"
  proof -
    have "slackClient (snd (validateSlackChannelCreation ?v bad_subscription_msg)) =
        snd (CreateConversation (slackClient ?v) (Spec_SlackChannel bad_subscription_msg)
              (Spec_ChannelType bad_subscription_msg = ''private''))"
      using check_rules_in_order [of bad_subscription_msg ?v] pre by blast
    then show ?thesis
      by (simp add: CreateConversation_def NewValidator_def NewMockSlackClient_def Let_def
          channelID_of_0 bad_subscription_msg_def success_msg_def)
  qed
  have d: "fst (fst (validateSlackChannelCreation ?v bad_subscription_msg))
      = Some (Errorf ''subscription stage cannot be empty'')"
  proof -
    have "Spec_Subscriptions bad_subscription_msg =
        [\<lparr>Stage = ''production'', Events = [''PromoteSucceeded'']\<rparr>]
        @ \<lparr>Stage = '''', Events = [''PromoteFailed'']\<rparr> # [\<lparr>Stage = ''staging'', Events = []\<rparr>]"
      by (simp add: bad_subscription_msg_def)
    moreover have "\<forall>pre sub post.
            Spec_Subscriptions bad_subscription_msg = pre @ sub # post
            \<and> (\<forall>s \<in> set pre. Stage s \<noteq> '''' \<and> Events s \<noteq> [])
            \<and> (Stage sub = '''' \<or> Events sub = []) \<longrightarrow>
            fst (fst (validateSlackChannelCreation ?v bad_subscription_msg)) =
              Some (if Stage sub = '''' then Errorf ''subscription stage cannot be empty''
                    else Errorf ''subscription must have at least one event'')"
      using check_rules_in_order [of bad_subscription_msg ?v] pre by blast
    ultimately show ?thesis
      by (elim allE [where x = "[\<lparr>Stage = ''production'', Events = [''PromoteSucceeded'']\<rparr>]"]
            allE [where x = "\<lparr>Stage = '''', Events = [''PromoteFailed'']\<rparr>"]
            allE [where x = "[\<lparr>Stage = ''staging'', Events = []\<rparr>]"]) simp
  qed
  have e: "fst (fst (validateSlackChannelCreation ?v success_msg)) = None"
    using check_rules_in_order [of success_msg ?v]
    by (simp add: success_msg_def)
  from a b c d e show ?thesis by blast
qed

subsection \<open>The race\<close>

lemma select_done:
  "finish < d \<Longrightarrow> ends_after ctx finish \<Longrightarrow> select (WithTimeout ctx d) finish t = CaseDone"
  by (cases ctx) auto


lemma ValidateMessage_done:
  assumes "select (WithTimeout ctx (timeout v)) (check_finish v sch msg) (tie sch) = CaseDone"
  shows "fst (ValidateMessage v ctx sch msg) =
     (case fst (fst (validateSlackChannelCreation v msg)) of
        None \<Rightarrow>
          (\<lparr>resp_APIVersion = ''admission.k8s.io/v1'', resp_Kind = ''AdmissionReview'',
            Response_UID = ''test-uid-'' @ fmt_d (now sch), Response_Allowed = True,
            Response_Patch = '''', Response_PatchType = '''', Response_Result = None\<rparr>, None)
      | Some e \<Rightarrow>
          (\<lparr>resp_APIVersion = ''admission.k8s.io/v1'', resp_Kind = ''AdmissionReview'',
            Response_UID = ''test-uid-'' @ fmt_d (now sch), Response_Allowed = False,
            Response_Patch = '''', Response_PatchType = '''',
            Response_Result =
              Some [''status'' \<mapsto> ''Failure'',
                    ''reason'' \<mapsto> ''Slack channel validation failed: '' @ Error e]\<rparr>, Some e))"
proof -
  obtain err slept v' where "validateSlackChannelCreation v msg = ((err, slept), v')"
    by (metis prod.exhaust)
  with assms show ?thesis
    by (cases err) (simp_all add: ValidateMessage_def check_finish_def)
qed

lemma ValidateMessage_ctx_done:
  assumes "select (WithTimeout ctx (timeout v)) (check_finish v sch msg) (tie sch) = CaseCtxDone"
  shows "fst (ValidateMessage v ctx sch msg) =
     (\<lparr>resp_APIVersion = ''admission.k8s.io/v1'', resp_Kind = ''AdmissionReview'',
       Response_UID = ''test-uid-'' @ fmt_d (now sch), Response_Allowed = False,
       Response_Patch = '''', Response_PatchType = '''',
       Response_Result =
         Some [''status'' \<mapsto> ''Failure'', ''reason'' \<mapsto> ''Slack channel validation timeout'']\<rparr>,
      Err (WithTimeout ctx (timeout v)))"
proof -
  obtain err slept v' where "validateSlackChannelCreation v msg = ((err, slept), v')"
    by (metis prod.exhaust)
  with assms show ?thesis
    by (simp add: ValidateMessage_def check_finish_def)
qed

lemma snd_ValidateMessage:
  "snd (ValidateMessage v ctx sch msg) = snd (validateSlackChannelCreation v msg)"
  by (simp add: ValidateMessage_def Let_def split: prod.splits select_case.splits option.splits)

lemma UID_ValidateMessage:
  "Response_UID (fst (fst (ValidateMessage v ctx sch msg))) = ''test-uid-'' @ fmt_d (now sch)"
  by (simp add: ValidateMessage_def Let_def split: prod.splits select_case.splits option.splits)

lemma error_denies:
  assumes "snd (fst (ValidateMessage v ctx sch msg)) = Some e"
  shows "\<not> Response_Allowed (fst (fst (ValidateMessage v ctx sch msg)))
     \<and> (\<exists>reason. Response_Result (fst (fst (ValidateMessage v ctx sch msg)))
            = Some [''status'' \<mapsto> ''Failure'', ''reason'' \<mapsto> reason])"
  using assms
  by (auto simp: ValidateMessage_def Let_def split: prod.splits select_case.splits option.splits)

lemma Err_WithTimeout: "Err (WithTimeout ctx d) \<noteq> None"
  by (cases ctx) auto

lemma no_error_allows:
  assumes "snd (fst (ValidateMessage v ctx sch msg)) = None"
  shows "Response_Allowed (fst (fst (ValidateMessage v ctx sch msg)))
     \<and> Response_Result (fst (fst (ValidateMessage v ctx sch msg))) = None"
  using assms
  by (auto simp: ValidateMessage_def Let_def Err_WithTimeout
      split: prod.splits select_case.splits option.splits)

subsection \<open>When the check is finished\<close>

lemma check_finish_valid:
  "Spec_SlackChannel msg \<noteq> '''' \<Longrightarrow> Metadata_Namespace msg \<noteq> '''' \<Longrightarrow>
     check_finish v sch msg = int (latency sch) + 100 * Millisecond"
  by (simp add: check_finish_def validate_created)

lemma check_finish_no_channel:
  "Spec_SlackChannel msg = '''' \<Longrightarrow> check_finish v sch msg = int (latency sch)"
  by (simp add: check_finish_def validate_no_channel)

lemma fmt_d_noon: "fmt_d 1700000000000000000 = ''1700000000000000000''"
  by (simp add: fmt_d_def fmt_base.simps digit_char_def)

subsection \<open>C1: a valid candidate is allowed when the check finishes in time\<close>

text \<open>
  The message and the validator of \<^verbatim>\<open>TestTimeoutValidation\<close>: the candidate has a
  channel and a namespace and no malformed subscription, and the check client succeeds,
  but the budget of 10 ms ends before the 100 ms the check sleeps, so the response is a
  denial and the error is \<^verbatim>\<open>context.DeadlineExceeded\<close>.
\<close>

theorem valid_candidate_timeout_counterexample:
  "Spec_SlackChannel timeout_msg \<noteq> '''' \<and> Metadata_Namespace timeout_msg \<noteq> ''''
   \<and> Spec_Subscriptions timeout_msg = []
   \<and> \<not> Response_Allowed (fst (fst (ValidateMessage timeout_validator Background test_schedule timeout_msg)))
   \<and> snd (fst (ValidateMessage timeout_validator Background test_schedule timeout_msg))
       = Some DeadlineExceeded"
proof -
  have f: "check_finish timeout_validator test_schedule timeout_msg = 100001000"
    by (simp add: check_finish_valid timeout_msg_def test_schedule_def Millisecond_def)
  have t: "timeout timeout_validator = 10000000"
    by (simp add: timeout_validator_def Millisecond_def)
  have "select (WithTimeout Background (timeout timeout_validator))
      (check_finish timeout_validator test_schedule timeout_msg) (tie test_schedule) = CaseCtxDone"
    by (simp add: f t)
  from ValidateMessage_ctx_done [OF this] show ?thesis
    by (simp add: timeout_msg_def timeout_validator_def)
qed

text \<open>
  Claim C1, amended. For every candidate with a non-empty channel, a non-empty namespace
  and only subscriptions that have a stage and at least one event, \<^verbatim>\<open>ValidateMessage\<close>
  returns \<open>allowed = true\<close>, no result and no error, provided the result of the check is
  in \<^verbatim>\<open>done\<close> before the budget of the validator has run out and before the context of
  the caller ends. (The check client never fails.)
\<close>

theorem valid_candidate_allowed:
  assumes "Spec_SlackChannel msg \<noteq> ''''" and "Metadata_Namespace msg \<noteq> ''''"
    and "\<forall>sub \<in> set (Spec_Subscriptions msg). Stage sub \<noteq> '''' \<and> Events sub \<noteq> []"
    and "check_finish v sch msg < timeout v" and "ends_after ctx (check_finish v sch msg)"
  shows "Response_Allowed (fst (fst (ValidateMessage v ctx sch msg)))
     \<and> Response_Result (fst (fst (ValidateMessage v ctx sch msg))) = None
     \<and> snd (fst (ValidateMessage v ctx sch msg)) = None"
proof -
  have "fst (fst (validateSlackChannelCreation v msg)) = None"
    using assms(1-3) by (simp add: validate_created check_subscriptions_None)
  moreover have "select (WithTimeout ctx (timeout v)) (check_finish v sch msg) (tie sch) = CaseDone"
    using assms(4,5) by (rule select_done)
  ultimately show ?thesis
    by (simp add: ValidateMessage_done)
qed

theorem valid_candidate_allowed_witness:
  "Response_Allowed
     (fst (fst (ValidateMessage (NewValidator NewMockSlackClient) Background test_schedule success_msg)))
   \<and> snd (fst (ValidateMessage (NewValidator NewMockSlackClient) Background test_schedule success_msg))
       = None"
proof -
  have "check_finish (NewValidator NewMockSlackClient) test_schedule success_msg
      < timeout (NewValidator NewMockSlackClient)"
    by (simp add: check_finish_valid success_msg_def test_schedule_def NewValidator_def
        Millisecond_def Second_def)
  moreover have "\<forall>sub \<in> set (Spec_Subscriptions success_msg). Stage sub \<noteq> '''' \<and> Events sub \<noteq> []"
    by (simp add: success_msg_def)
  moreover have "Spec_SlackChannel success_msg \<noteq> ''''" "Metadata_Namespace success_msg \<noteq> ''''"
    by (simp_all add: success_msg_def)
  ultimately show ?thesis
    using valid_candidate_allowed [of success_msg "NewValidator NewMockSlackClient" test_schedule Background]
    by simp
qed

subsection \<open>C2: the denial of the timeout\<close>



subsection \<open>C4: the candidate without a channel\<close>

text \<open>
  The message of \<^verbatim>\<open>TestWebhookValidator_MissingChannel\<close>, validated under a context
  that is cancelled when \<^verbatim>\<open>ValidateMessage\<close> is entered: the \<^verbatim>\<open>select\<close> finds
  \<^verbatim>\<open>asyncCtx.Done()\<close> closed before the check has answered, and the reason of the denial
  is the one of the timeout, which does not contain \<open>slackChannel is required\<close>.
\<close>

theorem missing_channel_cancelled_counterexample:
  "Spec_SlackChannel missing_channel_msg = ''''
   \<and> reason_of (fst (fst (ValidateMessage (NewValidator NewMockSlackClient) (Ends 0 Canceled)
         test_schedule missing_channel_msg))) = Some ''Slack channel validation timeout''
   \<and> \<not> Contains ''Slack channel validation timeout'' ''slackChannel is required''"
proof -
  have c: "Spec_SlackChannel missing_channel_msg = ''''"
    by (simp add: missing_channel_msg_def)
  have "check_finish (NewValidator NewMockSlackClient) test_schedule missing_channel_msg = 1000"
    by (simp add: check_finish_no_channel c test_schedule_def)
  then have "select (WithTimeout (Ends 0 Canceled) (timeout (NewValidator NewMockSlackClient)))
      (check_finish (NewValidator NewMockSlackClient) test_schedule missing_channel_msg) (tie test_schedule)
      = CaseCtxDone"
    by (simp add: NewValidator_def Second_def Millisecond_def)
  from ValidateMessage_ctx_done [OF this]
  have "reason_of (fst (fst (ValidateMessage (NewValidator NewMockSlackClient) (Ends 0 Canceled)
         test_schedule missing_channel_msg))) = Some ''Slack channel validation timeout''"
    by (simp add: reason_of_def)
  moreover have "\<not> Contains ''Slack channel validation timeout'' ''slackChannel is required''"
    by (simp add: Contains_def sublist_code)
  ultimately show ?thesis using c by blast
qed

text \<open>
  Claim C4, amended. For every candidate whose channel is empty, whatever its other
  fields are, \<^verbatim>\<open>ValidateMessage\<close> returns a denial (\<open>allowed = false\<close>); and when the
  result of the check is in \<^verbatim>\<open>done\<close> before the budget has run out and before the
  context of the caller ends, the reason of the denial is
  \<open>Slack channel validation failed: slackChannel is required\<close>, which contains
  \<open>slackChannel is required\<close>, the error is the one of the check, and the client has not
  been called.
\<close>

theorem missing_channel_denied:
  assumes "Spec_SlackChannel msg = ''''"
  shows "\<not> Response_Allowed (fst (fst (ValidateMessage v ctx sch msg)))
     \<and> (int (latency sch) < timeout v \<and> ends_after ctx (int (latency sch)) \<longrightarrow>
          reason_of (fst (fst (ValidateMessage v ctx sch msg)))
            = Some ''Slack channel validation failed: slackChannel is required''
          \<and> Contains ''Slack channel validation failed: slackChannel is required''
                ''slackChannel is required''
          \<and> snd (fst (ValidateMessage v ctx sch msg)) = Some (Errorf ''slackChannel is required'')
          \<and> snd (ValidateMessage v ctx sch msg) = v)"
proof -
  have e: "validateSlackChannelCreation v msg = ((Some (Errorf ''slackChannel is required''), 0), v)"
    using assms by (rule validate_no_channel)
  have denied: "\<not> Response_Allowed (fst (fst (ValidateMessage v ctx sch msg)))"
    by (cases "select (WithTimeout ctx (timeout v)) (check_finish v sch msg) (tie sch)")
      (simp_all add: ValidateMessage_done ValidateMessage_ctx_done e)
  have c: "Contains ''Slack channel validation failed: slackChannel is required''
      ''slackChannel is required''"
    unfolding Contains_def by code_simp
  have "reason_of (fst (fst (ValidateMessage v ctx sch msg)))
            = Some ''Slack channel validation failed: slackChannel is required''
      \<and> snd (fst (ValidateMessage v ctx sch msg)) = Some (Errorf ''slackChannel is required'')
      \<and> snd (ValidateMessage v ctx sch msg) = v"
    if t: "int (latency sch) < timeout v" "ends_after ctx (int (latency sch))"
  proof -
    have "select (WithTimeout ctx (timeout v)) (check_finish v sch msg) (tie sch) = CaseDone"
      using t by (simp add: check_finish_no_channel assms select_done)
    from ValidateMessage_done [OF this] show ?thesis
      by (simp add: e reason_of_def snd_ValidateMessage)
  qed
  with denied c show ?thesis by blast
qed

theorem missing_channel_denied_witness:
  "\<not> Response_Allowed (fst (fst (ValidateMessage (NewValidator NewMockSlackClient) Background
        test_schedule missing_channel_msg)))
   \<and> reason_of (fst (fst (ValidateMessage (NewValidator NewMockSlackClient) Background
        test_schedule missing_channel_msg)))
      = Some ''Slack channel validation failed: slackChannel is required''
   \<and> snd (fst (ValidateMessage (NewValidator NewMockSlackClient) Background
        test_schedule missing_channel_msg)) = Some (Errorf ''slackChannel is required'')"
proof -
  have "Spec_SlackChannel missing_channel_msg = ''''"
    by (simp add: missing_channel_msg_def)
  moreover have "int (latency test_schedule) < timeout (NewValidator NewMockSlackClient)"
    by (simp add: test_schedule_def NewValidator_def Second_def Millisecond_def)
  moreover have "ends_after Background (int (latency test_schedule))"
    by simp
  ultimately show ?thesis
    using missing_channel_denied
      [of missing_channel_msg "NewValidator NewMockSlackClient" Background test_schedule]
    by blast
qed

subsection \<open>C9: a denied candidate leaves a channel behind\<close>



subsection \<open>The handler\<close>

lemma WebhookHandler_validated:
  assumes "Body r = Some body" and "Unmarshal json body = Some req"
    and "Request_Object req = AnyMap obj"
  shows "WebhookHandler json v sch r =
     (let ((resp, err), v') = ValidateMessage v (Request_Context r) sch (Remarshal json obj)
      in (case err of
            Some e \<Rightarrow>
              (\<lparr>StatusCode = StatusInternalServerError, ContentType = None,
                Payload = Encoded_Response resp\<rparr>, v')
          | None \<Rightarrow>
              (\<lparr>StatusCode = StatusOK, ContentType = Some ''application/json'',
                Payload = Encoded_Response resp\<rparr>, v')))"
  using assms by (simp add: WebhookHandler_def)

lemma WebhookHandler_payload:
  assumes "Body r = Some body" and "Unmarshal json body = Some req"
    and "Request_Object req = AnyMap obj"
  shows "Payload (fst (WebhookHandler json v sch r)) =
       Encoded_Response
         (fst (fst (ValidateMessage v (Request_Context r) sch (Remarshal json obj))))
     \<and> snd (WebhookHandler json v sch r) =
         snd (ValidateMessage v (Request_Context r) sch (Remarshal json obj))
     \<and> StatusCode (fst (WebhookHandler json v sch r)) =
         (case snd (fst (ValidateMessage v (Request_Context r) sch (Remarshal json obj))) of
            Some e \<Rightarrow> StatusInternalServerError | None \<Rightarrow> StatusOK)"
  by (simp add: WebhookHandler_validated [OF assms] split: prod.splits option.splits)

lemma WebhookHandler_rejected:
  assumes "Body r = None \<or> (\<exists>body. Body r = Some body \<and> (Unmarshal json body = None
       \<or> (\<exists>req. Unmarshal json body = Some req \<and> (\<forall>obj. Request_Object req \<noteq> AnyMap obj))))"
  shows "\<exists>msg. WebhookHandler json v sch r = (http_Error msg StatusBadRequest, v)"
  using assms
  by (auto simp: WebhookHandler_def split: option.splits any.splits)

subsection \<open>C3: the identifier of the response\<close>

text \<open>
  The request of \<^verbatim>\<open>TestWebhookValidator_HTTPHandler\<close> has the identifier
  \<open>test-http-uid\<close>; the response the handler writes has the identifier
  \<open>test-uid-1700000000000000000\<close>, made from the clock.
\<close>

theorem response_uid_counterexample:
  "Request_UID (http_test_request (AnyMap http_test_object)) = ''test-http-uid''
   \<and> Payload (fst (WebhookHandler (http_test_json (AnyMap http_test_object))
        (NewValidator NewMockSlackClient) test_schedule (post_request (Some ''body'') Map.empty)))
      = Encoded_Response
          \<lparr>resp_APIVersion = ''admission.k8s.io/v1'', resp_Kind = ''AdmissionReview'',
           Response_UID = ''test-uid-1700000000000000000'', Response_Allowed = True,
           Response_Patch = '''', Response_PatchType = '''', Response_Result = None\<rparr>
   \<and> ''test-uid-1700000000000000000''
       \<noteq> Request_UID (http_test_request (AnyMap http_test_object))"
proof -
  let ?v = "NewValidator NewMockSlackClient"
  let ?json = "http_test_json (AnyMap http_test_object)"
  let ?r = "post_request (Some ''body'') Map.empty"
  have b: "Body ?r = Some ''body''"
    by (simp add: post_request_def)
  have u: "Unmarshal ?json ''body'' = Some (http_test_request (AnyMap http_test_object))"
    by (simp add: http_test_json_def)
  have o: "Request_Object (http_test_request (AnyMap http_test_object)) = AnyMap http_test_object"
    by (simp add: http_test_request_def)
  have m: "Remarshal ?json http_test_object = http_test_msg"
    by (simp add: http_test_json_def)
  have c: "Request_Context ?r = Background"
    by (simp add: post_request_def)
  have f: "check_finish ?v test_schedule http_test_msg = 100001000"
    by (simp add: check_finish_valid http_test_msg_def test_schedule_def Millisecond_def)
  have t: "timeout ?v = 30000000000"
    by (simp add: NewValidator_def Second_def Millisecond_def)
  have "select (WithTimeout Background (timeout ?v)) (check_finish ?v test_schedule http_test_msg)
      (tie test_schedule) = CaseDone"
    by (simp add: f t)
  from ValidateMessage_done [OF this]
  have "fst (fst (ValidateMessage ?v Background test_schedule http_test_msg)) =
      \<lparr>resp_APIVersion = ''admission.k8s.io/v1'', resp_Kind = ''AdmissionReview'',
       Response_UID = ''test-uid-1700000000000000000'', Response_Allowed = True,
       Response_Patch = '''', Response_PatchType = '''', Response_Result = None\<rparr>"
    by (simp add: validate_created http_test_msg_def test_schedule_def fmt_d_noon)
  then show ?thesis
    using WebhookHandler_payload [OF b u o, of ?v test_schedule]
    by (simp add: m c http_test_request_def)
qed

text \<open>
  Claim C3, amended. The identifier of the response of \<^verbatim>\<open>ValidateMessage\<close> is
  \<open>test-uid-\<close> followed by the reading of the clock in nanoseconds, and this is the
  identifier in the body the handler writes for every request that reaches the
  validator: it is made anew for each validation and does not depend on the identifier
  of the request, which \<^verbatim>\<open>ValidateMessage\<close> is not given.
\<close>

theorem response_uid_from_clock:
  "Response_UID (fst (fst (ValidateMessage v ctx sch msg))) = ''test-uid-'' @ fmt_d (now sch)
   \<and> (Body r = Some body \<and> Unmarshal json body = Some req \<and> Request_Object req = AnyMap obj
        \<longrightarrow> (\<exists>resp. Payload (fst (WebhookHandler json v sch r)) = Encoded_Response resp
              \<and> Response_UID resp = ''test-uid-'' @ fmt_d (now sch)))"
  using WebhookHandler_payload [of r body json req obj v sch]
  by (simp add: UID_ValidateMessage)

theorem response_uid_from_clock_witness:
  "Response_UID (fst (fst (ValidateMessage (NewValidator NewMockSlackClient) Background test_schedule
      http_test_msg))) = ''test-uid-1700000000000000000''
   \<and> (\<exists>resp. Payload (fst (WebhookHandler (http_test_json (AnyMap http_test_object))
          (NewValidator NewMockSlackClient) test_schedule (post_request (Some ''body'') Map.empty)))
          = Encoded_Response resp
        \<and> Response_UID resp = ''test-uid-1700000000000000000'')"
proof -
  have "Body (post_request (Some ''body'') Map.empty) = Some ''body''"
    by (simp add: post_request_def)
  moreover have "Unmarshal (http_test_json (AnyMap http_test_object)) ''body''
      = Some (http_test_request (AnyMap http_test_object))"
    by (simp add: http_test_json_def)
  moreover have "Request_Object (http_test_request (AnyMap http_test_object))
      = AnyMap http_test_object"
    by (simp add: http_test_request_def)
  moreover have "fmt_d (now test_schedule) = ''1700000000000000000''"
    by (simp add: test_schedule_def fmt_d_noon)
  ultimately show ?thesis
    using response_uid_from_clock [of "NewValidator NewMockSlackClient" Background test_schedule
        http_test_msg "post_request (Some ''body'') Map.empty" "''body''"
        "http_test_json (AnyMap http_test_object)" "http_test_request (AnyMap http_test_object)"
        http_test_object]
    by simp
qed

subsection \<open>C6: requests the handler does not pass to the validator\<close>

text \<open>
  Claim C6. When \<^verbatim>\<open>json.Unmarshal\<close> of the body returns an error, or the object of the
  decoded request is not a map, \<^verbatim>\<open>WebhookHandler\<close> answers with a status of the 4xx
  class and a plain text, and the validator is not called: the validator and its client
  are as they were, and the answer is the same for every validator and every schedule.
\<close>

theorem malformed_request_is_client_error:
  assumes "Body r = Some body"
    and "Unmarshal json body = None
       \<or> (\<exists>req. Unmarshal json body = Some req \<and> (\<forall>obj. Request_Object req \<noteq> AnyMap obj))"
  shows "is_client_error (StatusCode (fst (WebhookHandler json v sch r)))
     \<and> (\<exists>txt. Payload (fst (WebhookHandler json v sch r)) = Text txt)
     \<and> snd (WebhookHandler json v sch r) = v
     \<and> WebhookHandler json v' sch' r = (fst (WebhookHandler json v sch r), v')"
proof -
  obtain msg where m: "WebhookHandler json v sch r = (http_Error msg StatusBadRequest, v)"
    using assms WebhookHandler_rejected [of r json v sch] by blast
  have "WebhookHandler json v' sch' r = (fst (WebhookHandler json v sch r), v')"
    using assms by (auto simp: WebhookHandler_def split: option.splits any.splits)
  then show ?thesis
    by (simp add: m http_Error_def is_client_error_def StatusBadRequest_def)
qed

theorem malformed_request_is_client_error_witness:
  "is_client_error (StatusCode (fst (WebhookHandler (http_test_json (AnyString ''text''))
      (NewValidator NewMockSlackClient) test_schedule (post_request (Some ''body'') Map.empty))))
   \<and> snd (WebhookHandler (http_test_json (AnyString ''text''))
      (NewValidator NewMockSlackClient) test_schedule (post_request (Some ''body'') Map.empty))
      = NewValidator NewMockSlackClient
   \<and> is_client_error (StatusCode (fst (WebhookHandler (http_test_json (AnyMap http_test_object))
      (NewValidator NewMockSlackClient) test_schedule (post_request (Some ''{'') Map.empty))))"
proof -
  let ?v = "NewValidator NewMockSlackClient"
  have b1: "Body (post_request (Some ''body'') Map.empty) = Some ''body''"
    by (simp add: post_request_def)
  have u1: "Unmarshal (http_test_json (AnyString ''text'')) ''body'' = None
      \<or> (\<exists>req. Unmarshal (http_test_json (AnyString ''text'')) ''body'' = Some req
            \<and> (\<forall>obj. Request_Object req \<noteq> AnyMap obj))"
    by (simp add: http_test_json_def http_test_request_def)
  note w1 = malformed_request_is_client_error [OF b1 u1, of ?v test_schedule ?v test_schedule]
  have b2: "Body (post_request (Some ''{'') Map.empty) = Some ''{''"
    by (simp add: post_request_def)
  have u2: "Unmarshal (http_test_json (AnyMap http_test_object)) ''{'' = None
      \<or> (\<exists>req. Unmarshal (http_test_json (AnyMap http_test_object)) ''{'' = Some req
            \<and> (\<forall>obj. Request_Object req \<noteq> AnyMap obj))"
    by (simp add: http_test_json_def)
  note w2 = malformed_request_is_client_error [OF b2 u2, of ?v test_schedule ?v test_schedule]
  from w1 [THEN conjunct1] w1 [THEN conjunct2, THEN conjunct2, THEN conjunct1] w2 [THEN conjunct1]
  show ?thesis by (intro conjI)
qed

subsection \<open>C7: the status follows the error of the validator\<close>

text \<open>
  Claim C7. For a request that reaches the validator, the body the handler writes is the
  response \<^verbatim>\<open>ValidateMessage\<close> has returned. When \<^verbatim>\<open>ValidateMessage\<close> returns an error the
  status is of the 5xx class and the response is a complete denial (\<open>allowed = false\<close>,
  a result with \<open>status = Failure\<close> and a reason); when it returns no error the status is
  of the 2xx class and the response allows.
\<close>

theorem status_follows_validator_error:
  assumes "Body r = Some body" and "Unmarshal json body = Some req"
    and "Request_Object req = AnyMap obj"
  shows "Payload (fst (WebhookHandler json v sch r)) =
       Encoded_Response
         (fst (fst (ValidateMessage v (Request_Context r) sch (Remarshal json obj))))
     \<and> (snd (fst (ValidateMessage v (Request_Context r) sch (Remarshal json obj))) \<noteq> None \<longrightarrow>
          is_server_error (StatusCode (fst (WebhookHandler json v sch r)))
          \<and> \<not> Response_Allowed
                (fst (fst (ValidateMessage v (Request_Context r) sch (Remarshal json obj))))
          \<and> (\<exists>reason.
                Response_Result
                  (fst (fst (ValidateMessage v (Request_Context r) sch (Remarshal json obj))))
                = Some [''status'' \<mapsto> ''Failure'', ''reason'' \<mapsto> reason]))
     \<and> (snd (fst (ValidateMessage v (Request_Context r) sch (Remarshal json obj))) = None \<longrightarrow>
          is_success (StatusCode (fst (WebhookHandler json v sch r)))
          \<and> Response_Allowed
                (fst (fst (ValidateMessage v (Request_Context r) sch (Remarshal json obj)))))"
proof -
  let ?vm = "ValidateMessage v (Request_Context r) sch (Remarshal json obj)"
  note p = WebhookHandler_payload [OF assms, of v sch]
  have "is_server_error (StatusCode (fst (WebhookHandler json v sch r)))
      \<and> \<not> Response_Allowed (fst (fst ?vm))
      \<and> (\<exists>reason. Response_Result (fst (fst ?vm))
            = Some [''status'' \<mapsto> ''Failure'', ''reason'' \<mapsto> reason])"
    if "snd (fst ?vm) \<noteq> None"
  proof -
    from that obtain e where e: "snd (fst ?vm) = Some e" by blast
    from error_denies [OF e] show ?thesis
      using p by (simp add: e is_server_error_def StatusInternalServerError_def)
  qed
  moreover have "is_success (StatusCode (fst (WebhookHandler json v sch r)))
      \<and> Response_Allowed (fst (fst ?vm))"
    if n: "snd (fst ?vm) = None"
    using no_error_allows [OF n] p by (simp add: n is_success_def StatusOK_def)
  ultimately show ?thesis using p by blast
qed

theorem status_follows_validator_error_witness:
  "is_success (StatusCode (fst (WebhookHandler (http_test_json (AnyMap http_test_object))
      (NewValidator NewMockSlackClient) test_schedule (post_request (Some ''body'') Map.empty))))
   \<and> is_server_error (StatusCode (fst (WebhookHandler (http_test_json (AnyMap http_test_object))
      timeout_validator test_schedule (post_request (Some ''body'') Map.empty))))"
proof -
  let ?json = "http_test_json (AnyMap http_test_object)"
  let ?r = "post_request (Some ''body'') Map.empty"
  have b: "Body ?r = Some ''body''"
    by (simp add: post_request_def)
  have u: "Unmarshal ?json ''body'' = Some (http_test_request (AnyMap http_test_object))"
    by (simp add: http_test_json_def)
  have o: "Request_Object (http_test_request (AnyMap http_test_object)) = AnyMap http_test_object"
    by (simp add: http_test_request_def)
  have m: "Remarshal ?json http_test_object = http_test_msg"
    by (simp add: http_test_json_def)
  have c: "Request_Context ?r = Background"
    by (simp add: post_request_def)
  have v: "Spec_SlackChannel http_test_msg \<noteq> ''''" "Metadata_Namespace http_test_msg \<noteq> ''''"
    by (simp_all add: http_test_msg_def)
  have f: "check_finish w test_schedule http_test_msg = 100001000" for w
    by (simp add: check_finish_valid v test_schedule_def Millisecond_def)
  have t1: "timeout (NewValidator NewMockSlackClient) = 30000000000"
    by (simp add: NewValidator_def Second_def Millisecond_def)
  have t2: "timeout timeout_validator = 10000000"
    by (simp add: timeout_validator_def Millisecond_def)
  have "select (WithTimeout Background (timeout (NewValidator NewMockSlackClient)))
      (check_finish (NewValidator NewMockSlackClient) test_schedule http_test_msg) (tie test_schedule)
      = CaseDone"
    by (simp add: f t1)
  from ValidateMessage_done [OF this]
  have ok: "snd (fst (ValidateMessage (NewValidator NewMockSlackClient) Background test_schedule
      http_test_msg)) = None"
    by (simp add: validate_created v http_test_msg_def)
  have "select (WithTimeout Background (timeout timeout_validator))
      (check_finish timeout_validator test_schedule http_test_msg) (tie test_schedule) = CaseCtxDone"
    by (simp add: f t2)
  from ValidateMessage_ctx_done [OF this]
  have ko: "snd (fst (ValidateMessage timeout_validator Background test_schedule http_test_msg))
      \<noteq> None"
    by simp
  have x: "is_success (StatusCode (fst (WebhookHandler ?json (NewValidator NewMockSlackClient)
      test_schedule ?r)))"
    using status_follows_validator_error [OF b u o, of "NewValidator NewMockSlackClient" test_schedule] ok
    by (simp add: m c)
  have y: "is_server_error (StatusCode (fst (WebhookHandler ?json timeout_validator
      test_schedule ?r)))"
    using status_follows_validator_error [OF b u o, of timeout_validator test_schedule] ko
    by (simp add: m c)
  from x y show ?thesis by (rule conjI)
qed

subsection \<open>C10: the checks of the plain receiver\<close>

text \<open>
  A \<^verbatim>\<open>POST\<close> whose \<^verbatim>\<open>X-Webhook-Secret\<close> header is there with an empty value: the value
  differs from the expected secret, and the status is 401, not 403, since
  \<^verbatim>\<open>Header.Get\<close> returns the empty string for an empty value as for a missing header.
\<close>

theorem empty_secret_counterexample:
  "Header (post_request (Some ''{}'') [secretHeader \<mapsto> ['''']]) secretHeader = Some ['''']
   \<and> '''' \<noteq> expectedSecret
   \<and> StatusCode (webhookHandler (post_request (Some ''{}'') [secretHeader \<mapsto> ['''']]))
       = StatusUnauthorized
   \<and> StatusUnauthorized \<noteq> StatusForbidden"
  by (simp add: webhookHandler_def post_request_def Header_Get_def http_Error_def
      expectedSecret_def StatusUnauthorized_def StatusForbidden_def)

text \<open>
  Claim C10, amended. The receiver decides before it reads the body: a method other than
  \<^verbatim>\<open>POST\<close> gives 405; a \<^verbatim>\<open>POST\<close> whose secret header is missing or has an empty first
  value gives 401; a \<^verbatim>\<open>POST\<close> whose first secret value is not empty and differs from the
  expected secret gives 403; only a \<^verbatim>\<open>POST\<close> with the expected secret goes on to read the
  body, and answers 200 with the echo message when the body can be read (400 when it
  cannot). The three rejections do not depend on the body.
\<close>

theorem receiver_checks:
  "(Method r \<noteq> ''POST'' \<longrightarrow>
      webhookHandler r = http_Error ''Method not allowed'' StatusMethodNotAllowed)
   \<and> (Method r = ''POST'' \<and> Header_Get (Header r) secretHeader = '''' \<longrightarrow>
      webhookHandler r = http_Error ''Missing secret header'' StatusUnauthorized)
   \<and> (Header r secretHeader = None \<longrightarrow> Header_Get (Header r) secretHeader = '''')
   \<and> (Method r = ''POST'' \<and> Header_Get (Header r) secretHeader \<noteq> ''''
        \<and> Header_Get (Header r) secretHeader \<noteq> expectedSecret \<longrightarrow>
      webhookHandler r = http_Error ''Forbidden'' StatusForbidden)
   \<and> (Method r = ''POST'' \<and> Header_Get (Header r) secretHeader = expectedSecret \<longrightarrow>
      webhookHandler r =
        (case Body r of
           None \<Rightarrow> http_Error ''Bad request'' StatusBadRequest
         | Some body \<Rightarrow>
             \<lparr>StatusCode = StatusOK, ContentType = Some ''application/json'',
              Payload = Encoded_Map [''message'' \<mapsto> ''Webhook received successfully'']\<rparr>))
   \<and> (Method r \<noteq> ''POST'' \<or> Header_Get (Header r) secretHeader \<noteq> expectedSecret \<longrightarrow>
      webhookHandler (r\<lparr>Body := b\<rparr>) = webhookHandler r)"
proof -
  have e: "expectedSecret \<noteq> ''''"
    by (simp add: expectedSecret_def)
  show ?thesis
    by (auto simp: webhookHandler_def Let_def e Header_Get_def)
qed

theorem receiver_checks_witness:
  "StatusCode (webhookHandler ((post_request (Some ''{}'') Map.empty)\<lparr>Method := ''GET''\<rparr>)) = 405
   \<and> StatusCode (webhookHandler (post_request (Some ''{}'') Map.empty)) = 401
   \<and> StatusCode (webhookHandler (post_request (Some ''{}'') [secretHeader \<mapsto> [''guess'']])) = 403
   \<and> StatusCode (webhookHandler (post_request (Some ''{}'') [secretHeader \<mapsto> [expectedSecret]]))
       = 200"
proof -
  have a: "StatusCode (webhookHandler ((post_request (Some ''{}'') Map.empty)\<lparr>Method := ''GET''\<rparr>))
      = 405"
    using receiver_checks [of "(post_request (Some ''{}'') Map.empty)\<lparr>Method := ''GET''\<rparr>" None,
        THEN conjunct1]
    by (simp add: post_request_def http_Error_def StatusMethodNotAllowed_def)
  have b: "StatusCode (webhookHandler (post_request (Some ''{}'') Map.empty)) = 401"
    using receiver_checks [of "post_request (Some ''{}'') Map.empty" None,
        THEN conjunct2, THEN conjunct1]
    by (simp add: post_request_def http_Error_def StatusUnauthorized_def Header_Get_def)
  have c: "StatusCode (webhookHandler (post_request (Some ''{}'')
      [secretHeader \<mapsto> [''guess'']])) = 403"
    using receiver_checks [of "post_request (Some ''{}'') [secretHeader \<mapsto> [''guess'']]" None,
        THEN conjunct2, THEN conjunct2, THEN conjunct2, THEN conjunct1]
    by (simp add: post_request_def http_Error_def StatusForbidden_def Header_Get_def
        expectedSecret_def)
  have d: "StatusCode (webhookHandler (post_request (Some ''{}'')
      [secretHeader \<mapsto> [expectedSecret]])) = 200"
    using receiver_checks [of "post_request (Some ''{}'') [secretHeader \<mapsto> [expectedSecret]]" None,
        THEN conjunct2, THEN conjunct2, THEN conjunct2, THEN conjunct2, THEN conjunct1]
    by (simp add: post_request_def StatusOK_def Header_Get_def)
  from a b c d show ?thesis by (intro conjI)
qed

end
